theory Spec2Isabelle
  imports Main
begin

section \<open>Data model\<close>

text \<open>
  The program keeps its domain objects on the Python heap and shares them by reference:
  a \<open>Message\<close> is referenced from the proxy that wraps it, from the owning user's
  message list and from the dirty lists of the unit of work. The model therefore keeps an
  explicit store for \<open>Message\<close> and \<open>User\<close> objects, addressed by natural numbers.
  Proxies are never mutated after construction, so a proxy is represented by the
  reference it wraps.
\<close>

record message =
  message_id :: int
  body :: string

text \<open>
  What a slot of \<open>User._messages\<close> can hold: the annotation says \<open>list[Message]\<close>,
  and \<open>UserRepository._load\<close> stores \<open>MessageProxy\<close> objects there (\<open>cast\<close> does
  nothing at run time). Both classes offer \<open>message_id\<close> and \<open>edit\<close>.
\<close>

datatype message_ref = RawMessage nat | MessageProxy nat

record user =
  user_id :: int
  name :: string
  messages :: "message_ref list"

datatype user_ref = RawUser nat | UserProxy nat

text \<open>The entities handed to \<open>register_new\<close> and \<open>register_dirty\<close>: raw domain objects.\<close>

datatype entity = MessageEntity nat | UserEntity nat

text \<open>
  Mapper-kind tokens are dictionary keys. The program uses the two mapper classes; any
  other hashable value may serve as a key as well.
\<close>

datatype mapper_type = MessageMapper | UserMapper | OtherType nat

text \<open>
  \<open>Registry.register_mapper\<close> is untyped, so the registered value is an arbitrary Python
  object: the two mapper instances, or a value of a builtin type.
\<close>

datatype pyobj =
    PyNone
  | PyBool bool
  | PyInt int
  | PyStr string
  | MessageMapperObj
  | UserMapperObj

text \<open>Python truthiness, as tested by \<open>if not mapper\<close>.\<close>

fun truthy :: "pyobj \<Rightarrow> bool" where
  "truthy PyNone = False"
| "truthy (PyBool b) = b"
| "truthy (PyInt i) = (i \<noteq> 0)"
| "truthy (PyStr s) = (s \<noteq> [])"
| "truthy MessageMapperObj = True"
| "truthy UserMapperObj = True"

text \<open>
  Exceptions. \<open>Exception msg\<close> is \<open>raise Exception(msg)\<close>; \<open>UnboundLocalError v\<close> is
  what Python raises when the local variable \<open>v\<close> is read before any assignment;
  \<open>AttributeError a\<close> is a read of a missing attribute \<open>a\<close>; the remaining three are
  raised by the database library.
\<close>

datatype error =
    Exception string
  | UnboundLocalError string
  | AttributeError string
  | StatementError
  | NoResultFound
  | MultipleResultsFound

fun class_name :: "error \<Rightarrow> string" where
  "class_name (Exception m) = ''Exception''"
| "class_name (UnboundLocalError v) = ''UnboundLocalError''"
| "class_name (AttributeError a) = ''AttributeError''"
| "class_name StatementError = ''StatementError''"
| "class_name NoResultFound = ''NoResultFound''"
| "class_name MultipleResultsFound = ''MultipleResultsFound''"

subsection \<open>The store behind the connection\<close>

text \<open>
  The relational engine is an external collaborator. It is modelled by the two tables of
  the schema (rows in table order) and by the sequence of calls the program has made on
  the connection so far.
\<close>

datatype call =
    SelectUserJoin int
  | UpdateUsers "(string \<times> int) list"
  | UpdateMessages "(string \<times> int) list"
  | SelectMessage int
  | SelectUser int
  | TransactionCommit

record connection =
  users_table :: "(int \<times> string) list"
  messages_table :: "(int \<times> string \<times> int option) list"
  calls :: "call list"

datatype row = Row (row_user_id: int) (row_user_name: string)
                   (row_message_id: int) (row_message_body: string)

text \<open>
  The program state. The script builds one \<open>Registry\<close>, one \<open>UnitOfWork\<close> and one
  connection, and binds the unit of work to the module-level name \<open>unit_of_work\<close>;
  \<open>self._unit_of_work\<close> of the repository and of every proxy, and the global that
  \<open>_load\<close> passes to \<open>UserProxy\<close>, all denote that object. The state holds its two
  dictionaries (insertion-ordered, hence association lists), the registry's dictionary,
  the two object stores with their allocation counters, and the connection.
\<close>

record state =
  message_heap :: "nat \<Rightarrow> message"
  message_count :: nat
  user_heap :: "nat \<Rightarrow> user"
  user_count :: nat
  mappers :: "mapper_type \<rightharpoonup> pyobj"
  new :: "(mapper_type \<times> entity list) list"
  dirty :: "(mapper_type \<times> entity list) list"
  conn :: connection

section \<open>Domain entities\<close>

definition Message_init :: "int \<Rightarrow> string \<Rightarrow> state \<Rightarrow> nat \<times> state" where
  "Message_init mid b s =
     (message_count s,
      s\<lparr>message_heap := (message_heap s)(message_count s := \<lparr>message_id = mid, body = b\<rparr>),
        message_count := Suc (message_count s)\<rparr>)"

definition Message_edit :: "nat \<Rightarrow> string \<Rightarrow> state \<Rightarrow> state" where
  "Message_edit a b s =
     s\<lparr>message_heap := (message_heap s)(a := (message_heap s a)\<lparr>body := b\<rparr>)\<rparr>"

definition User_init :: "int \<Rightarrow> string \<Rightarrow> message_ref list \<Rightarrow> state \<Rightarrow> nat \<times> state" where
  "User_init uid n ms s =
     (user_count s,
      s\<lparr>user_heap := (user_heap s)(user_count s := \<lparr>user_id = uid, name = n, messages = ms\<rparr>),
        user_count := Suc (user_count s)\<rparr>)"

definition User_rename :: "nat \<Rightarrow> string \<Rightarrow> state \<Rightarrow> state" where
  "User_rename u n s = s\<lparr>user_heap := (user_heap s)(u := (user_heap s u)\<lparr>name := n\<rparr>)\<rparr>"

section \<open>Registry\<close>

definition register_mapper ::
  "mapper_type \<Rightarrow> pyobj \<Rightarrow> (mapper_type \<rightharpoonup> pyobj) \<Rightarrow> (mapper_type \<rightharpoonup> pyobj)" where
  "register_mapper mapper_type mapper m = m(mapper_type \<mapsto> mapper)"

text \<open>\<open>dict.get\<close> yields \<open>None\<close> for an absent key; the test is on the value's truth.\<close>

definition Registry_get :: "(mapper_type \<rightharpoonup> pyobj) \<Rightarrow> mapper_type \<Rightarrow> error + pyobj" where
  "Registry_get m mapper_type =
     (let mapper = (case m mapper_type of None \<Rightarrow> PyNone | Some v \<Rightarrow> v)
      in if \<not> truthy mapper then Inl (Exception ''Mapper not found'') else Inr mapper)"

section \<open>Unit of work\<close>

text \<open>
  \<open>d.setdefault(k, []).append(e)\<close> on an insertion-ordered dictionary: an existing key
  keeps its place and gets the entity appended to its list, a new key goes to the end.
\<close>

fun setdefault_append :: "'k \<Rightarrow> 'e \<Rightarrow> ('k \<times> 'e list) list \<Rightarrow> ('k \<times> 'e list) list" where
  "setdefault_append k e [] = [(k, [e])]"
| "setdefault_append k e ((k', es) # d) =
     (if k' = k then (k', es @ [e]) # d else (k', es) # setdefault_append k e d)"

definition register_new :: "mapper_type \<Rightarrow> entity \<Rightarrow> state \<Rightarrow> state" where
  "register_new mapper entity s = s\<lparr>new := setdefault_append mapper entity (new s)\<rparr>"

definition register_dirty :: "mapper_type \<Rightarrow> entity \<Rightarrow> state \<Rightarrow> state" where
  "register_dirty mapper entity s = s\<lparr>dirty := setdefault_append mapper entity (dirty s)\<rparr>"

section \<open>Mappers\<close>

text \<open>
  A batched \<open>UPDATE ... SET col = :v WHERE id = :id\<close>: the parameter sets are applied
  one after another, each to every row with that identity.
\<close>

definition update_users :: "(string \<times> int) list \<Rightarrow> (int \<times> string) list \<Rightarrow> (int \<times> string) list" where
  "update_users params tbl =
     foldl (\<lambda>t (n, uid). map (\<lambda>(i, old). if i = uid then (i, n) else (i, old)) t) tbl params"

definition update_messages ::
  "(string \<times> int) list \<Rightarrow> (int \<times> string \<times> int option) list \<Rightarrow> (int \<times> string \<times> int option) list" where
  "update_messages params tbl =
     foldl (\<lambda>t (b, mid). map (\<lambda>(i, old, fk). if i = mid then (i, b, fk) else (i, old, fk)) t)
       tbl params"

text \<open>
  \<open>connection.execute(stmt, params)\<close> for the two update statements. With an empty
  parameter list the statement is run without parameters, and the library rejects it
  because its bind parameters have no value.
\<close>

definition execute_update_users :: "(string \<times> int) list \<Rightarrow> state \<Rightarrow> (error + unit) \<times> state" where
  "execute_update_users params s =
     (if params = [] then (Inl StatementError, s)
      else (Inr (), s\<lparr>conn := (conn s)\<lparr>users_table := update_users params (users_table (conn s)),
                                       calls := calls (conn s) @ [UpdateUsers params]\<rparr>\<rparr>))"

definition execute_update_messages :: "(string \<times> int) list \<Rightarrow> state \<Rightarrow> (error + unit) \<times> state" where
  "execute_update_messages params s =
     (if params = [] then (Inl StatementError, s)
      else (Inr (), s\<lparr>conn := (conn s)\<lparr>messages_table := update_messages params (messages_table (conn s)),
                                       calls := calls (conn s) @ [UpdateMessages params]\<rparr>\<rparr>))"

text \<open>
  The parameter loops of \<open>update_all\<close>. They read \<open>name\<close> and \<open>user_id\<close> (or \<open>body\<close>
  and \<open>message_id\<close>) of every entity, at the time of the flush; an entity of the other
  class lacks the first attribute read.
\<close>

fun user_params :: "state \<Rightarrow> entity list \<Rightarrow> error + (string \<times> int) list" where
  "user_params s [] = Inr []"
| "user_params s (UserEntity u # es) =
     (case user_params s es of
        Inl e \<Rightarrow> Inl e
      | Inr ps \<Rightarrow> Inr ((name (user_heap s u), user_id (user_heap s u)) # ps))"
| "user_params s (MessageEntity a # es) = Inl (AttributeError ''name'')"

fun message_params :: "state \<Rightarrow> entity list \<Rightarrow> error + (string \<times> int) list" where
  "message_params s [] = Inr []"
| "message_params s (MessageEntity a # es) =
     (case message_params s es of
        Inl e \<Rightarrow> Inl e
      | Inr ps \<Rightarrow> Inr ((body (message_heap s a), message_id (message_heap s a)) # ps))"
| "message_params s (UserEntity u # es) = Inl (AttributeError ''body'')"

definition UserMapper_update_all :: "entity list \<Rightarrow> state \<Rightarrow> (error + unit) \<times> state" where
  "UserMapper_update_all users s =
     (case user_params s users of
        Inl e \<Rightarrow> (Inl e, s)
      | Inr params \<Rightarrow> execute_update_users params s)"

definition MessageMapper_update_all :: "entity list \<Rightarrow> state \<Rightarrow> (error + unit) \<times> state" where
  "MessageMapper_update_all msgs s =
     (case message_params s msgs of
        Inl e \<Rightarrow> (Inl e, s)
      | Inr params \<Rightarrow> execute_update_messages params s)"

text \<open>\<open>mapper.update_all(data)\<close> on whatever object the registry returned.\<close>

fun update_all :: "pyobj \<Rightarrow> entity list \<Rightarrow> state \<Rightarrow> (error + unit) \<times> state" where
  "update_all MessageMapperObj data s = MessageMapper_update_all data s"
| "update_all UserMapperObj data s = UserMapper_update_all data s"
| "update_all other data s = (Inl (AttributeError ''update_all''), s)"

section \<open>Commit\<close>

text \<open>
  The loop of \<open>UnitOfWork.commit\<close> over \<open>self._dirty.items()\<close>, in insertion order. An
  exception leaves the state as it is at that moment.
\<close>

fun commit_loop :: "(mapper_type \<times> entity list) list \<Rightarrow> state \<Rightarrow> (error + unit) \<times> state" where
  "commit_loop [] s = (Inr (), s)"
| "commit_loop ((mapper_type, data) # rest) s =
     (case Registry_get (mappers s) mapper_type of
        Inl e \<Rightarrow> (Inl e, s)
      | Inr mapper \<Rightarrow>
          (case update_all mapper data s of
             (Inl e, s') \<Rightarrow> (Inl e, s')
           | (Inr u, s') \<Rightarrow> commit_loop rest s'))"

definition connection_commit :: "state \<Rightarrow> state" where
  "connection_commit s = s\<lparr>conn := (conn s)\<lparr>calls := calls (conn s) @ [TransactionCommit]\<rparr>\<rparr>"

definition commit :: "state \<Rightarrow> (error + unit) \<times> state" where
  "commit s =
     (case commit_loop (dirty s) s of
        (Inl e, s') \<Rightarrow> (Inl e, s')
      | (Inr u, s') \<Rightarrow> (Inr (), connection_commit s'))"

section \<open>Proxies\<close>

definition MessageProxy_edit :: "nat \<Rightarrow> string \<Rightarrow> state \<Rightarrow> state" where
  "MessageProxy_edit a b s = Message_edit a b (register_dirty MessageMapper (MessageEntity a) s)"

text \<open>
  \<open>message.message_id\<close> and \<open>message.edit(body)\<close> inside \<open>User.edit_message\<close>, resolved
  on the class of the object found in the list.
\<close>

fun message_id_of :: "state \<Rightarrow> message_ref \<Rightarrow> int" where
  "message_id_of s (RawMessage a) = message_id (message_heap s a)"
| "message_id_of s (MessageProxy a) = message_id (message_heap s a)"

fun edit :: "message_ref \<Rightarrow> string \<Rightarrow> state \<Rightarrow> state" where
  "edit (RawMessage a) b s = Message_edit a b s"
| "edit (MessageProxy a) b s = MessageProxy_edit a b s"

fun edit_message_loop :: "message_ref list \<Rightarrow> int \<Rightarrow> string \<Rightarrow> state \<Rightarrow> state" where
  "edit_message_loop [] mid b s = s"
| "edit_message_loop (m # ms) mid b s =
     edit_message_loop ms mid b (if message_id_of s m = mid then edit m b s else s)"

definition User_edit_message :: "nat \<Rightarrow> int \<Rightarrow> string \<Rightarrow> state \<Rightarrow> state" where
  "User_edit_message u mid b s = edit_message_loop (messages (user_heap s u)) mid b s"

definition UserProxy_rename :: "nat \<Rightarrow> string \<Rightarrow> state \<Rightarrow> state" where
  "UserProxy_rename u n s = User_rename u n (register_dirty UserMapper (UserEntity u) s)"

definition UserProxy_edit_message :: "nat \<Rightarrow> int \<Rightarrow> string \<Rightarrow> state \<Rightarrow> state" where
  "UserProxy_edit_message u mid b s = User_edit_message u mid b s"

text \<open>Calls on the object a caller of the repository holds.\<close>

fun edit_message :: "user_ref \<Rightarrow> int \<Rightarrow> string \<Rightarrow> state \<Rightarrow> state" where
  "edit_message (RawUser u) mid b s = User_edit_message u mid b s"
| "edit_message (UserProxy u) mid b s = UserProxy_edit_message u mid b s"

fun rename :: "user_ref \<Rightarrow> string \<Rightarrow> state \<Rightarrow> state" where
  "rename (RawUser u) n s = User_rename u n s"
| "rename (UserProxy u) n s = UserProxy_rename u n s"

section \<open>Repository\<close>

text \<open>
  The joined query of \<open>with_id\<close>: one row per message of the user row with the given
  identity.
\<close>

definition select_user_join :: "int \<Rightarrow> connection \<Rightarrow> row list" where
  "select_user_join uid c =
     concat (map (\<lambda>(i, n).
               map (\<lambda>(mid, b, fk). Row i n mid b)
                 (filter (\<lambda>(mid, b, fk). fk = Some i) (messages_table c)))
             (filter (\<lambda>(i, n). i = uid) (users_table c)))"

fun load_loop :: "row list \<Rightarrow> message_ref list \<Rightarrow> state \<Rightarrow> message_ref list \<times> state" where
  "load_loop [] proxy_messages s = (proxy_messages, s)"
| "load_loop (r # rs) proxy_messages s =
     (case Message_init (row_message_id r) (row_message_body r) s of
        (a, s') \<Rightarrow> load_loop rs (proxy_messages @ [MessageProxy a]) s')"

text \<open>
  After the loop \<open>row\<close> is the last row of the result; it was never assigned when the
  result is empty.
\<close>

definition load :: "row list \<Rightarrow> state \<Rightarrow> (error + user_ref) \<times> state" where
  "load result s =
     (case load_loop result [] s of
        (proxy_messages, s1) \<Rightarrow>
          if result = [] then (Inl (UnboundLocalError ''row''), s1)
          else (case User_init (row_user_id (last result)) (row_user_name (last result))
                       proxy_messages s1 of
                  (u, s2) \<Rightarrow> (Inr (UserProxy u), s2)))"

definition with_id :: "int \<Rightarrow> state \<Rightarrow> (error + user_ref) \<times> state" where
  "with_id uid s =
     load (select_user_join uid (conn s))
          (s\<lparr>conn := (conn s)\<lparr>calls := calls (conn s) @ [SelectUserJoin uid]\<rparr>\<rparr>)"

section \<open>Interactor and driver\<close>

definition execute :: "state \<Rightarrow> (error + unit) \<times> state" where
  "execute s =
     (case with_id 1 s of
        (Inl e, s1) \<Rightarrow> (Inl e, s1)
      | (Inr usr, s1) \<Rightarrow>
          commit (rename usr ''new username''
                   (edit_message usr 2 ''new message body 2''
                     (edit_message usr 1 ''new message body 1'' s1))))"

text \<open>\<open>Result.one()\<close>: exactly one row, or an exception.\<close>

fun one :: "'a list \<Rightarrow> error + 'a" where
  "one [] = Inl NoResultFound"
| "one [r] = Inr r"
| "one (r # r' # rs) = Inl MultipleResultsFound"

definition select_message :: "int \<Rightarrow> state \<Rightarrow> (error + int \<times> string \<times> int option) \<times> state" where
  "select_message mid s =
     (one (filter (\<lambda>(i, b, fk). i = mid) (messages_table (conn s))),
      s\<lparr>conn := (conn s)\<lparr>calls := calls (conn s) @ [SelectMessage mid]\<rparr>\<rparr>)"

definition select_user :: "int \<Rightarrow> state \<Rightarrow> (error + int \<times> string) \<times> state" where
  "select_user uid s =
     (one (filter (\<lambda>(i, n). i = uid) (users_table (conn s))),
      s\<lparr>conn := (conn s)\<lparr>calls := calls (conn s) @ [SelectUser uid]\<rparr>\<rparr>)"

text \<open>The rows the script inserts before the second \<open>with\<close> block, and the empty heap.\<close>

definition seeded :: connection where
  "seeded = \<lparr>users_table = [(1, ''bob''), (2, ''sam''), (3, ''von'')],
             messages_table = [(1, ''body 1'', Some 1), (2, ''body 2'', Some 1),
                               (3, ''body 3'', Some 1), (4, ''body 4'', Some 2)],
             calls = []\<rparr>"

definition initial :: "connection \<Rightarrow> state" where
  "initial c =
     \<lparr>message_heap = (\<lambda>a. \<lparr>message_id = 0, body = []\<rparr>), message_count = 0,
      user_heap = (\<lambda>u. \<lparr>user_id = 0, name = [], messages = []\<rparr>), user_count = 0,
      mappers = Map.empty, new = [], dirty = [], conn = c\<rparr>"

text \<open>
  The second \<open>with\<close> block: wiring, the use case, and the three values it prints.
  \<open>Interactor.execute\<close> reads the module-level \<open>user_repository\<close> and
  \<open>unit_of_work\<close>, which are the instances built here.
\<close>

definition driver :: "state \<Rightarrow> (error + string \<times> string \<times> string) \<times> state" where
  "driver s0 =
     (let s1 = s0\<lparr>mappers := register_mapper UserMapper UserMapperObj
                                (register_mapper MessageMapper MessageMapperObj (mappers s0))\<rparr>
      in case execute s1 of
           (Inl e, s2) \<Rightarrow> (Inl e, s2)
         | (Inr u, s2) \<Rightarrow>
             (case select_message 1 s2 of
                (Inl e, s3) \<Rightarrow> (Inl e, s3)
              | (Inr message_1, s3) \<Rightarrow>
                  (case select_message 2 s3 of
                     (Inl e, s4) \<Rightarrow> (Inl e, s4)
                   | (Inr message_2, s4) \<Rightarrow>
                       (case select_user 1 s4 of
                          (Inl e, s5) \<Rightarrow> (Inl e, s5)
                        | (Inr user_1, s5) \<Rightarrow>
                            (Inr (fst (snd message_1), fst (snd message_2), snd user_1), s5)))))"

section \<open>Auxiliary notions for the statements\<close>

text \<open>The list a dictionary holds under a key, empty when the key is absent.\<close>

definition entries :: "'k \<Rightarrow> ('k \<times> 'e list) list \<Rightarrow> 'e list" where
  "entries k d = (case map_of d k of None \<Rightarrow> [] | Some es \<Rightarrow> es)"

text \<open>The \<open>Message\<close> object behind a slot of a user's message list.\<close>

fun message_of :: "message_ref \<Rightarrow> nat" where
  "message_of (RawMessage a) = a"
| "message_of (MessageProxy a) = a"

fun is_proxy :: "message_ref \<Rightarrow> bool" where
  "is_proxy (RawMessage a) = False"
| "is_proxy (MessageProxy a) = True"

text \<open>The dictionary after registering the entities \<open>es\<close>, in order, under the key \<open>k\<close>.\<close>

definition register_all :: "'k \<Rightarrow> 'e list \<Rightarrow> ('k \<times> 'e list) list \<Rightarrow> ('k \<times> 'e list) list" where
  "register_all k es d = foldl (\<lambda>d' e. setdefault_append k e d') d es"

section \<open>Registration\<close>

lemma map_of_setdefault_append:
  "map_of (setdefault_append k e d) k = Some (entries k d @ [e])"
  by (induction d) (auto simp: entries_def)

lemma entries_setdefault_append: "entries k (setdefault_append k e d) = entries k d @ [e]"
  by (simp add: entries_def map_of_setdefault_append)

lemma map_of_setdefault_append_other:
  "k' \<noteq> k \<Longrightarrow> map_of (setdefault_append k e d) k' = map_of d k'"
  by (induction d) auto

lemma entries_new_funpow:
  "entries k (new ((register_new k e ^^ n) s)) = entries k (new s) @ replicate n e"
  by (induction n)
     (simp_all add: register_new_def entries_setdefault_append replicate_append_same)

lemma entries_dirty_funpow:
  "entries k (dirty ((register_dirty k e ^^ n) s)) = entries k (dirty s) @ replicate n e"
  by (induction n)
     (simp_all add: register_dirty_def entries_setdefault_append replicate_append_same)

lemma entries_register_all: "entries k (register_all k es d) = entries k d @ es"
  unfolding register_all_def
  by (induction es arbitrary: d) (simp_all add: entries_setdefault_append)

text \<open>
  C6. \<open>register_new\<close> and \<open>register_dirty\<close> put the entity at the end of the list of
  its kind, which exists afterwards whether or not it did before, and they never
  deduplicate: \<open>n\<close> registrations of one entity under one kind add \<open>n\<close> occurrences of it
  after what the list held.
\<close>

theorem register_appends_without_dedup:
  "map_of (new (register_new k e s)) k = Some (entries k (new s) @ [e]) \<and>
   map_of (dirty (register_dirty k e s)) k = Some (entries k (dirty s) @ [e]) \<and>
   entries k (new ((register_new k e ^^ n) s)) = entries k (new s) @ replicate n e \<and>
   entries k (dirty ((register_dirty k e ^^ n) s)) = entries k (dirty s) @ replicate n e"
  by (simp add: register_new_def register_dirty_def map_of_setdefault_append
                entries_new_funpow entries_dirty_funpow)

section \<open>Registry lookups\<close>

text \<open>
  C10. \<open>Registry.get\<close> tests the truth of the stored value: a kind registered with a
  falsy value raises the mapper-not-found exception, and a lookup that returns has found
  a registered, truthy value.
\<close>

theorem get_tests_truthiness:
  "(\<not> truthy m \<longrightarrow>
      Registry_get (register_mapper k m r) k = Inl (Exception ''Mapper not found'')) \<and>
   (Registry_get r k = Inr m' \<longrightarrow> r k = Some m' \<and> truthy m')"
  by (auto simp: Registry_get_def register_mapper_def Let_def split: option.splits if_splits)

theorem get_tests_truthiness_witness:
  "\<not> truthy (PyInt 0) \<and>
   Registry_get (register_mapper UserMapper (PyInt 0) Map.empty) UserMapper
     = Inl (Exception ''Mapper not found'') \<and>
   Registry_get (register_mapper UserMapper UserMapperObj Map.empty) UserMapper
     = Inr UserMapperObj \<and>
   (register_mapper UserMapper UserMapperObj Map.empty) UserMapper = Some UserMapperObj \<and>
   truthy UserMapperObj"
proof -
  have g: "Registry_get (register_mapper UserMapper UserMapperObj Map.empty) UserMapper
             = Inr UserMapperObj"
    by (simp add: Registry_get_def register_mapper_def)
  show ?thesis
    using g get_tests_truthiness [of "PyInt 0" UserMapper Map.empty UserMapperObj]
          get_tests_truthiness [of "PyInt 0" UserMapper
            "register_mapper UserMapper UserMapperObj Map.empty" UserMapperObj]
    by simp
qed

text \<open>
  C8, as the program has it. A second registration under a kind replaces the first, and
  \<open>get\<close> returns the second mapper provided it is truthy; a kind that was never
  registered makes \<open>get\<close> raise a plain \<open>Exception\<close> with the message
  \<open>Mapper not found\<close>.
\<close>

theorem last_registration_wins:
  "(truthy m2 \<longrightarrow> Registry_get (register_mapper k m2 (register_mapper k m1 r)) k = Inr m2) \<and>
   (r k = None \<longrightarrow> Registry_get r k = Inl (Exception ''Mapper not found''))"
  by (simp add: Registry_get_def register_mapper_def)

theorem last_registration_wins_witness:
  "truthy UserMapperObj \<and>
   Registry_get (register_mapper (OtherType 0) UserMapperObj
                  (register_mapper (OtherType 0) MessageMapperObj Map.empty)) (OtherType 0)
     = Inr UserMapperObj \<and>
   (Map.empty :: mapper_type \<rightharpoonup> pyobj) MessageMapper = None \<and>
   Registry_get Map.empty MessageMapper = Inl (Exception ''Mapper not found'')"
  using last_registration_wins [of UserMapperObj "OtherType 0" MessageMapperObj Map.empty]
        last_registration_wins [of UserMapperObj MessageMapper MessageMapperObj Map.empty]
  by simp

text \<open>
  C8 as the specification words it fails: registered last under a kind that held a
  mapper, the value \<open>None\<close> is not what \<open>get\<close> returns, and the exception raised is of
  class \<open>Exception\<close>.
\<close>

theorem last_registration_falsy_counterexample:
  "Registry_get (register_mapper MessageMapper PyNone
                  (register_mapper MessageMapper MessageMapperObj Map.empty)) MessageMapper
     = Inl (Exception ''Mapper not found'') \<and>
   class_name (Exception ''Mapper not found'') \<noteq> ''MapperNotFoundError''"
  by (simp add: Registry_get_def register_mapper_def)

section \<open>Loading\<close>

text \<open>
  C2, as the program has it. When the joined query returns no row, \<open>with_id\<close> raises
  \<open>UnboundLocalError\<close> for the loop variable \<open>row\<close>; it returns no user, and it has
  built no object: the only trace is the query on the connection.
\<close>

theorem with_id_no_rows:
  assumes "select_user_join uid (conn s) = []"
  shows "with_id uid s =
           (Inl (UnboundLocalError ''row''),
            s\<lparr>conn := (conn s)\<lparr>calls := calls (conn s) @ [SelectUserJoin uid]\<rparr>\<rparr>)"
  using assms by (simp add: with_id_def load_def)

theorem with_id_no_rows_witness:
  "select_user_join 3 (conn (initial seeded)) = [] \<and>
   with_id 3 (initial seeded) =
     (Inl (UnboundLocalError ''row''),
      (initial seeded)\<lparr>conn := (conn (initial seeded))
         \<lparr>calls := calls (conn (initial seeded)) @ [SelectUserJoin 3]\<rparr>\<rparr>)"
proof -
  have h: "select_user_join 3 (conn (initial seeded)) = []"
    by (simp add: select_user_join_def initial_def seeded_def)
  show ?thesis using h with_id_no_rows [OF h] by simp
qed

text \<open>
  C2 as the specification words it fails: user 3 of the seeded store owns no message,
  and loading it raises an exception whose class is not \<open>NotFoundError\<close>.
\<close>

theorem with_id_no_rows_counterexample:
  "select_user_join 3 (conn (initial seeded)) = [] \<and>
   fst (with_id 3 (initial seeded)) = Inl (UnboundLocalError ''row'') \<and>
   class_name (UnboundLocalError ''row'') \<noteq> ''NotFoundError''"
  by (simp add: with_id_def load_def select_user_join_def initial_def seeded_def)

lemma fst_load_loop:
  "fst (load_loop rs acc s) =
     acc @ map (\<lambda>i. MessageProxy (message_count s + i)) [0..<length rs]"
proof (induction rs arbitrary: acc s)
  case Nil
  show ?case by simp
next
  case (Cons r rs)
  show ?case
    by (simp add: Message_init_def Cons.IH map_upt_Suc del: upt_Suc)
qed

lemma load_loop_count: "message_count (snd (load_loop rs acc s)) = message_count s + length rs"
  by (induction rs arbitrary: acc s) (simp_all add: Message_init_def)

lemma load_loop_old:
  "a < message_count s \<Longrightarrow> message_heap (snd (load_loop rs acc s)) a = message_heap s a"
  by (induction rs arbitrary: acc s) (simp_all add: Message_init_def)

lemma load_loop_fresh:
  "i < length rs \<Longrightarrow>
   message_heap (snd (load_loop rs acc s)) (message_count s + i)
     = \<lparr>message_id = row_message_id (rs ! i), body = row_message_body (rs ! i)\<rparr>"
proof (induction rs arbitrary: acc s i)
  case Nil
  then show ?case by simp
next
  case (Cons r rs)
  show ?case
  proof (cases i)
    case 0
    then show ?thesis by (simp add: Message_init_def load_loop_old)
  next
    case (Suc j)
    with Cons.prems have j: "j < length rs" by simp
    let ?s' = "snd (Message_init (row_message_id r) (row_message_body r) s)"
    have "message_heap (snd (load_loop rs (acc @ [MessageProxy (message_count s)]) ?s'))
            (message_count ?s' + j)
          = \<lparr>message_id = row_message_id (rs ! j), body = row_message_body (rs ! j)\<rparr>"
      by (rule Cons.IH [OF j])
    with Suc show ?thesis
      by (simp add: Message_init_def)
  qed
qed

lemma load_loop_frame:
  "dirty (snd (load_loop rs acc s)) = dirty s \<and> new (snd (load_loop rs acc s)) = new s \<and>
   user_heap (snd (load_loop rs acc s)) = user_heap s \<and>
   user_count (snd (load_loop rs acc s)) = user_count s \<and>
   mappers (snd (load_loop rs acc s)) = mappers s \<and>
   conn (snd (load_loop rs acc s)) = conn s"
  by (induction rs arbitrary: acc s) (simp_all add: Message_init_def)

lemma filter_key_distinct:
  "distinct (map fst xs) \<Longrightarrow>
   filter (\<lambda>(i, n). i = uid) xs = [] \<or> (\<exists>n. filter (\<lambda>(i, n). i = uid) xs = [(uid, n)])"
proof (induction xs)
  case Nil
  show ?case by simp
next
  case (Cons x xs)
  obtain i n where x: "x = (i, n)" by (cases x)
  show ?case
  proof (cases "i = uid")
    case True
    with Cons.prems x have "uid \<notin> fst ` set xs" by simp
    then have "filter (\<lambda>(i, n). i = uid) xs = []"
      by (force simp: filter_empty_conv)
    with True x show ?thesis by simp
  next
    case False
    with Cons x show ?thesis by simp
  qed
qed

lemma join_same_user:
  assumes "distinct (map fst (users_table c))" and "r \<in> set (select_user_join uid c)"
    and "r' \<in> set (select_user_join uid c)"
  shows "row_user_id r = row_user_id r' \<and> row_user_name r = row_user_name r'"
proof -
  from filter_key_distinct [OF assms(1), of uid]
  consider "filter (\<lambda>(i, n). i = uid) (users_table c) = []"
    | n where "filter (\<lambda>(i, n). i = uid) (users_table c) = [(uid, n)]"
    by blast
  then show ?thesis
  proof cases
    case 1
    with assms(2) show ?thesis by (simp add: select_user_join_def)
  next
    case 2
    with assms(2,3) show ?thesis by (auto simp: select_user_join_def)
  qed
qed


lemma with_id_nonempty:
  assumes "select_user_join uid (conn s) = rows" and "rows \<noteq> []"
  shows "fst (with_id uid s) = Inr (UserProxy (user_count s))"
    and "user_heap (snd (with_id uid s)) (user_count s) =
           \<lparr>user_id = row_user_id (last rows), name = row_user_name (last rows),
            messages = map (\<lambda>i. MessageProxy (message_count s + i)) [0..<length rows]\<rparr>"
    and "message_count (snd (with_id uid s)) = message_count s + length rows"
    and "i < length rows \<Longrightarrow>
           message_heap (snd (with_id uid s)) (message_count s + i) =
             \<lparr>message_id = row_message_id (rows ! i), body = row_message_body (rows ! i)\<rparr>"
    and "dirty (snd (with_id uid s)) = dirty s"
    and "new (snd (with_id uid s)) = new s"
proof -
  let ?s0 = "s\<lparr>conn := (conn s)\<lparr>calls := calls (conn s) @ [SelectUserJoin uid]\<rparr>\<rparr>"
  let ?l = "load_loop rows [] ?s0"
  have w: "with_id uid s =
             (Inr (UserProxy (user_count (snd ?l))),
              snd (User_init (row_user_id (last rows)) (row_user_name (last rows))
                     (fst ?l) (snd ?l)))"
    using assms by (simp add: with_id_def load_def case_prod_beta User_init_def)
  have c: "message_count ?s0 = message_count s" by simp
  show "fst (with_id uid s) = Inr (UserProxy (user_count s))"
    by (simp add: w load_loop_frame)
  show "user_heap (snd (with_id uid s)) (user_count s) =
           \<lparr>user_id = row_user_id (last rows), name = row_user_name (last rows),
            messages = map (\<lambda>i. MessageProxy (message_count s + i)) [0..<length rows]\<rparr>"
    by (simp add: w User_init_def load_loop_frame fst_load_loop)
  show "message_count (snd (with_id uid s)) = message_count s + length rows"
    by (simp add: w User_init_def load_loop_count)
  show "dirty (snd (with_id uid s)) = dirty s"
    by (simp add: w User_init_def load_loop_frame)
  show "new (snd (with_id uid s)) = new s"
    by (simp add: w User_init_def load_loop_frame)
  show "message_heap (snd (with_id uid s)) (message_count s + i) =
             \<lparr>message_id = row_message_id (rows ! i), body = row_message_body (rows ! i)\<rparr>"
    if "i < length rows"
    using load_loop_fresh [OF that, of "[]" ?s0] by (simp add: w User_init_def)
qed

text \<open>
  C7. When the joined query returns at least one row, \<open>with_id\<close> returns a
  \<open>UserProxy\<close> around a new \<open>User\<close> whose message list holds one \<open>MessageProxy\<close> per
  row, in the order of the rows, each around a new \<open>Message\<close> built from that row. The
  user columns are read from the row the loop ended on; the primary key of \<open>users\<close>
  makes every row of the result carry the same user columns, so they are those of the
  first row.
\<close>

theorem with_id_builds_aggregate:
  assumes "distinct (map fst (users_table (conn s)))"
    and "select_user_join uid (conn s) = rows" and "rows \<noteq> []"
  shows "fst (with_id uid s) = Inr (UserProxy (user_count s)) \<and>
         user_heap (snd (with_id uid s)) (user_count s) =
           \<lparr>user_id = row_user_id (hd rows), name = row_user_name (hd rows),
            messages = map (\<lambda>i. MessageProxy (message_count s + i)) [0..<length rows]\<rparr> \<and>
         message_count (snd (with_id uid s)) = message_count s + length rows \<and>
         (\<forall>i<length rows.
            message_heap (snd (with_id uid s)) (message_count s + i) =
              \<lparr>message_id = row_message_id (rows ! i), body = row_message_body (rows ! i)\<rparr>)"
proof -
  have "last rows \<in> set (select_user_join uid (conn s))"
    and "hd rows \<in> set (select_user_join uid (conn s))"
    using assms(2,3) by simp_all
  from join_same_user [OF assms(1) this]
  have "row_user_id (last rows) = row_user_id (hd rows)"
    and "row_user_name (last rows) = row_user_name (hd rows)"
    by simp_all
  with with_id_nonempty [OF assms(2,3)] show ?thesis
    by simp
qed

theorem with_id_builds_aggregate_witness:
  "distinct (map fst (users_table (conn (initial seeded)))) \<and>
   select_user_join 1 (conn (initial seeded)) =
     [Row 1 ''bob'' 1 ''body 1'', Row 1 ''bob'' 2 ''body 2'', Row 1 ''bob'' 3 ''body 3''] \<and>
   fst (with_id 1 (initial seeded)) = Inr (UserProxy 0) \<and>
   user_heap (snd (with_id 1 (initial seeded))) 0 =
     \<lparr>user_id = 1, name = ''bob'',
      messages = [MessageProxy 0, MessageProxy 1, MessageProxy 2]\<rparr> \<and>
   message_count (snd (with_id 1 (initial seeded))) = 3 \<and>
   message_heap (snd (with_id 1 (initial seeded))) 2 = \<lparr>message_id = 3, body = ''body 3''\<rparr>"
proof -
  let ?rows = "[Row 1 ''bob'' 1 ''body 1'', Row 1 ''bob'' 2 ''body 2'', Row 1 ''bob'' 3 ''body 3'']"
  have pk: "distinct (map fst (users_table (conn (initial seeded))))"
    by (simp add: initial_def seeded_def)
  have rows: "select_user_join 1 (conn (initial seeded)) = ?rows"
    by (simp add: select_user_join_def initial_def seeded_def)
  have ne: "?rows \<noteq> []" by simp
  have zero: "message_count (initial seeded) = 0" "user_count (initial seeded) = 0"
    by (simp_all add: initial_def)
  have idx: "map (\<lambda>i. MessageProxy (0 + i)) [0..<length ?rows]
               = [MessageProxy 0, MessageProxy 1, MessageProxy 2]"
    by (simp add: upt_rec)
  show ?thesis
    using pk rows with_id_builds_aggregate [OF pk rows ne]
    by (simp add: zero idx)
qed

section \<open>Editing through the user\<close>

lemma message_id_of_edit: "message_id_of (edit m b s) m' = message_id_of s m'"
  by (cases m; cases m')
     (simp_all add: Message_edit_def MessageProxy_edit_def register_dirty_def)

lemma body_edit_same: "body (message_heap (edit m b s) (message_of m)) = b"
  by (cases m) (simp_all add: Message_edit_def MessageProxy_edit_def register_dirty_def)

lemma body_edit_keeps:
  "body (message_heap s a) = b \<Longrightarrow> body (message_heap (edit m b s) a) = b"
  by (cases m) (simp_all add: Message_edit_def MessageProxy_edit_def register_dirty_def)

lemma user_heap_edit: "user_heap (edit m b s) = user_heap s"
  by (cases m) (simp_all add: Message_edit_def MessageProxy_edit_def register_dirty_def)

lemma edit_message_loop_no_match:
  "\<forall>m \<in> set ms. message_id_of s m \<noteq> mid \<Longrightarrow> edit_message_loop ms mid b s = s"
  by (induction ms) simp_all

lemma edit_message_loop_keeps:
  "body (message_heap s a) = b \<Longrightarrow> body (message_heap (edit_message_loop ms mid b s) a) = b"
  by (induction ms arbitrary: s) (simp_all add: body_edit_keeps)

lemma edit_message_loop_user_heap: "user_heap (edit_message_loop ms mid b s) = user_heap s"
  by (induction ms arbitrary: s) (simp_all add: user_heap_edit)

lemma edit_message_loop_match:
  "m \<in> set ms \<Longrightarrow> message_id_of s m = mid \<Longrightarrow>
   body (message_heap (edit_message_loop ms mid b s) (message_of m)) = b"
proof (induction ms arbitrary: s)
  case Nil
  then show ?case by simp
next
  case (Cons x xs)
  show ?case
  proof (cases "x = m")
    case True
    with Cons.prems show ?thesis
      by (simp add: edit_message_loop_keeps body_edit_same)
  next
    case False
    with Cons.prems have "m \<in> set xs" by simp
    moreover have "message_id_of (if message_id_of s x = mid then edit x b s else s) m = mid"
      using Cons.prems by (simp add: message_id_of_edit)
    ultimately show ?thesis
      using Cons.IH by simp
  qed
qed

text \<open>
  C9. \<open>User.edit_message\<close> cannot raise (the model has no error result). When no owned
  message has the given identity the call changes nothing at all; every owned message
  that has it ends with the given body; the user objects, and so the user's name, are
  never touched.
\<close>

theorem User_edit_message_scan:
  "((\<forall>m \<in> set (messages (user_heap s u)). message_id_of s m \<noteq> mid) \<longrightarrow>
      User_edit_message u mid b s = s) \<and>
   (\<forall>m \<in> set (messages (user_heap s u)). message_id_of s m = mid \<longrightarrow>
      body (message_heap (User_edit_message u mid b s) (message_of m)) = b) \<and>
   user_heap (User_edit_message u mid b s) = user_heap s"
  by (simp add: User_edit_message_def edit_message_loop_no_match edit_message_loop_match
                edit_message_loop_user_heap)

theorem User_edit_message_scan_witness:
  "messages (user_heap (snd (with_id 1 (initial seeded))) 0)
     = [MessageProxy 0, MessageProxy 1, MessageProxy 2] \<and>
   map (message_id_of (snd (with_id 1 (initial seeded))))
       (messages (user_heap (snd (with_id 1 (initial seeded))) 0)) = [1, 2, 3] \<and>
   User_edit_message 0 9 ''x'' (snd (with_id 1 (initial seeded)))
     = snd (with_id 1 (initial seeded)) \<and>
   body (message_heap (User_edit_message 0 2 ''x'' (snd (with_id 1 (initial seeded)))) 1)
     = ''x''"
proof -
  let ?s = "snd (with_id 1 (initial seeded))"
  have ms: "messages (user_heap ?s 0) = [MessageProxy 0, MessageProxy 1, MessageProxy 2]"
    by code_simp
  have ids: "map (message_id_of ?s) (messages (user_heap ?s 0)) = [1, 2, 3]"
    by code_simp
  from ids ms have each: "message_id_of ?s (MessageProxy 0) = 1"
    "message_id_of ?s (MessageProxy 1) = 2" "message_id_of ?s (MessageProxy 2) = 3"
    by simp_all
  show ?thesis
    using ms ids each
          User_edit_message_scan [of ?s 0 9 "''x''"]
          User_edit_message_scan [of ?s 0 2 "''x''"]
    by simp
qed

lemma dirty_edit:
  "dirty (edit m b s) =
     (if is_proxy m then setdefault_append MessageMapper (MessageEntity (message_of m)) (dirty s)
      else dirty s)"
  by (cases m) (simp_all add: Message_edit_def MessageProxy_edit_def register_dirty_def)

lemma new_edit: "new (edit m b s) = new s"
  by (cases m) (simp_all add: Message_edit_def MessageProxy_edit_def register_dirty_def)

lemma new_edit_message_loop: "new (edit_message_loop ms mid b s) = new s"
  by (induction ms arbitrary: s) (simp_all add: new_edit)

lemma dirty_edit_message_loop:
  "dirty (edit_message_loop ms mid b s) =
     register_all MessageMapper
       (map (\<lambda>m. MessageEntity (message_of m))
            (filter (\<lambda>m. is_proxy m \<and> message_id_of s m = mid) ms))
       (dirty s)"
proof (induction ms arbitrary: s)
  case Nil
  show ?case by (simp add: register_all_def)
next
  case (Cons x xs)
  let ?s' = "if message_id_of s x = mid then edit x b s else s"
  have same: "filter (\<lambda>m. is_proxy m \<and> message_id_of ?s' m = mid) xs
                = filter (\<lambda>m. is_proxy m \<and> message_id_of s m = mid) xs"
    by (simp add: message_id_of_edit)
  have "dirty (edit_message_loop (x # xs) mid b s) = dirty (edit_message_loop xs mid b ?s')"
    by simp
  also have "\<dots> = register_all MessageMapper
       (map (\<lambda>m. MessageEntity (message_of m))
            (filter (\<lambda>m. is_proxy m \<and> message_id_of s m = mid) xs))
       (dirty ?s')"
    using Cons.IH [of ?s'] same by simp
  finally show ?case
    by (simp add: dirty_edit register_all_def)
qed

text \<open>
  C1, as the program has it. The user that \<open>with_id\<close> returns keeps the message proxies
  in its list, so \<open>edit_message\<close> on the returned user proxy reaches
  \<open>MessageProxy.edit\<close>: every owned message with the given identity is registered
  dirty under \<open>MessageMapper\<close>, in list order and as the raw \<open>Message\<close>; nothing is
  registered as new, and nothing at all when no owned message has that identity.
\<close>

theorem edit_message_on_loaded_user_registers_dirty:
  assumes "with_id uid s = (Inr usr, s1)" and "select_user_join uid (conn s) = rows"
  shows "dirty (edit_message usr mid b s1) =
           register_all MessageMapper
             (map (\<lambda>i. MessageEntity (message_count s + i))
                  (filter (\<lambda>i. row_message_id (rows ! i) = mid) [0..<length rows]))
             (dirty s1) \<and>
         entries MessageMapper (dirty (edit_message usr mid b s1)) =
           entries MessageMapper (dirty s1) @
             map (\<lambda>i. MessageEntity (message_count s + i))
                 (filter (\<lambda>i. row_message_id (rows ! i) = mid) [0..<length rows]) \<and>
         new (edit_message usr mid b s1) = new s1"
proof -
  have ne: "rows \<noteq> []"
  proof
    assume "rows = []"
    with assms(2) have "fst (with_id uid s) = Inl (UnboundLocalError ''row'')"
      by (simp add: with_id_def load_def)
    with assms(1) show False by simp
  qed
  note w = with_id_nonempty [OF assms(2) ne]
  from assms(1) w(1) have usr: "usr = UserProxy (user_count s)" by simp
  from assms(1) have s1: "s1 = snd (with_id uid s)" by simp
  let ?ms = "map (\<lambda>i. MessageProxy (message_count s + i)) [0..<length rows]"
  have ms: "messages (user_heap s1 (user_count s)) = ?ms"
    by (simp add: s1 w(2))
  have flt: "filter (\<lambda>m. is_proxy m \<and> message_id_of s1 m = mid) ?ms =
             map (\<lambda>i. MessageProxy (message_count s + i))
                 (filter (\<lambda>i. row_message_id (rows ! i) = mid) [0..<length rows])"
    unfolding filter_map
    by (rule arg_cong [where f = "map _"], rule filter_cong) (simp_all add: s1 w(4))
  have d: "dirty (edit_message usr mid b s1) =
           register_all MessageMapper
             (map (\<lambda>i. MessageEntity (message_count s + i))
                  (filter (\<lambda>i. row_message_id (rows ! i) = mid) [0..<length rows]))
             (dirty s1)"
    by (simp add: usr UserProxy_edit_message_def User_edit_message_def
                  dirty_edit_message_loop ms flt o_def)
  show ?thesis
    by (simp add: d entries_register_all)
       (simp add: usr UserProxy_edit_message_def User_edit_message_def new_edit_message_loop)
qed

theorem edit_message_on_loaded_user_registers_dirty_witness:
  "with_id 1 (initial seeded) = (Inr (UserProxy 0), snd (with_id 1 (initial seeded))) \<and>
   entries MessageMapper
     (dirty (edit_message (UserProxy 0) 2 ''x'' (snd (with_id 1 (initial seeded)))))
     = entries MessageMapper (dirty (snd (with_id 1 (initial seeded)))) @ [MessageEntity 1]"
proof -
  let ?rows = "[Row 1 ''bob'' 1 ''body 1'', Row 1 ''bob'' 2 ''body 2'', Row 1 ''bob'' 3 ''body 3'']"
  have "fst (with_id 1 (initial seeded)) = Inr (UserProxy 0)"
    by code_simp
  then have w: "with_id 1 (initial seeded) = (Inr (UserProxy 0), snd (with_id 1 (initial seeded)))"
    by (simp add: prod_eq_iff)
  have rows: "select_user_join 1 (conn (initial seeded)) = ?rows"
    by (simp add: select_user_join_def initial_def seeded_def)
  have zero: "message_count (initial seeded) = 0"
    by (simp add: initial_def)
  have sel: "map (\<lambda>i. MessageEntity (0 + i))
               (filter (\<lambda>i. row_message_id (?rows ! i) = 2) [0..<length ?rows])
             = [MessageEntity 1]"
    by (simp add: upt_rec)
  show ?thesis
    using w edit_message_on_loaded_user_registers_dirty [OF w rows, of 2 "''x''"]
    by (simp add: zero sel entries_register_all)
qed

text \<open>
  C1 as the specification words it fails: on the seeded store, after loading user 1 the
  dirty map is empty, and \<open>edit_message(1, ...)\<close> on the returned proxy leaves the raw
  message 1 registered under \<open>MessageMapper\<close>.
\<close>

theorem edit_message_on_loaded_user_counterexample:
  "fst (with_id 1 (initial seeded)) = Inr (UserProxy 0) \<and>
   dirty (snd (with_id 1 (initial seeded))) = [] \<and>
   dirty (edit_message (UserProxy 0) 1 ''new message body 1'' (snd (with_id 1 (initial seeded))))
     = [(MessageMapper, [MessageEntity 0])]"
  by code_simp

section \<open>Commit\<close>

lemma user_params_frame: "user_params (s\<lparr>conn := c, new := n\<rparr>) es = user_params s es"
  by (induction s es rule: user_params.induct) (simp_all split: sum.splits)

lemma message_params_frame: "message_params (s\<lparr>conn := c, new := n\<rparr>) es = message_params s es"
  by (induction s es rule: message_params.induct) (simp_all split: sum.splits)

lemma update_all_frame:
  "\<exists>r fu fm cs. \<forall>c n.
     update_all m data (s\<lparr>conn := c, new := n\<rparr>) =
       (r, s\<lparr>conn := c\<lparr>users_table := fu (users_table c),
                        messages_table := fm (messages_table c),
                        calls := calls c @ cs\<rparr>, new := n\<rparr>)"
proof -
  have skip: "\<exists>r fu fm cs. \<forall>c n.
     (Inl e, s\<lparr>conn := c, new := n\<rparr>) =
       (r, s\<lparr>conn := c\<lparr>users_table := fu (users_table c),
                        messages_table := fm (messages_table c),
                        calls := calls c @ cs\<rparr>, new := n\<rparr>)" for e :: error
    by (rule exI [of _ "Inl e"], rule exI [of _ "\<lambda>t. t"], rule exI [of _ "\<lambda>t. t"],
        rule exI [of _ "[]"]) simp
  show ?thesis
  proof (cases m)
    case MessageMapperObj
    show ?thesis
    proof (cases "message_params s data")
      case (Inl e)
      with MessageMapperObj skip [of e] show ?thesis
        by (simp add: MessageMapper_update_all_def message_params_frame)
    next
      case (Inr ps)
      show ?thesis
      proof (cases "ps = []")
        case True
        with MessageMapperObj Inr skip [of StatementError] show ?thesis
          by (simp add: MessageMapper_update_all_def message_params_frame
                        execute_update_messages_def)
      next
        case False
        with MessageMapperObj Inr show ?thesis
          by (intro exI [of _ "Inr ()"] exI [of _ "\<lambda>t. t"] exI [of _ "update_messages ps"]
                    exI [of _ "[UpdateMessages ps]"])
             (simp add: MessageMapper_update_all_def message_params_frame
                        execute_update_messages_def)
      qed
    qed
  next
    case UserMapperObj
    show ?thesis
    proof (cases "user_params s data")
      case (Inl e)
      with UserMapperObj skip [of e] show ?thesis
        by (simp add: UserMapper_update_all_def user_params_frame)
    next
      case (Inr ps)
      show ?thesis
      proof (cases "ps = []")
        case True
        with UserMapperObj Inr skip [of StatementError] show ?thesis
          by (simp add: UserMapper_update_all_def user_params_frame
                        execute_update_users_def)
      next
        case False
        with UserMapperObj Inr show ?thesis
          by (intro exI [of _ "Inr ()"] exI [of _ "update_users ps"] exI [of _ "\<lambda>t. t"]
                    exI [of _ "[UpdateUsers ps]"])
             (simp add: UserMapper_update_all_def user_params_frame
                        execute_update_users_def)
      qed
    qed
  qed (use skip [of "AttributeError ''update_all''"] in simp_all)
qed

lemma commit_loop_frame:
  "\<exists>r fu fm cs. \<forall>c n.
     commit_loop ds (s\<lparr>conn := c, new := n\<rparr>) =
       (r, s\<lparr>conn := c\<lparr>users_table := fu (users_table c),
                        messages_table := fm (messages_table c),
                        calls := calls c @ cs\<rparr>, new := n\<rparr>)"
proof (induction ds)
  case Nil
  show ?case
    by (intro exI [of _ "Inr ()"] exI [of _ "\<lambda>t. t"] exI [of _ "[]"]) simp
next
  case (Cons d ds)
  obtain k data where d: "d = (k, data)" by (cases d)
  show ?case
  proof (cases "Registry_get (mappers s) k")
    case (Inl e)
    with d show ?thesis
      by (intro exI [of _ "Inl e"] exI [of _ "\<lambda>t. t"] exI [of _ "[]"]) simp
  next
    case (Inr m)
    from update_all_frame [of m data s]
    obtain r1 fu1 fm1 cs1 where u: "\<And>c n.
        update_all m data (s\<lparr>conn := c, new := n\<rparr>) =
          (r1, s\<lparr>conn := c\<lparr>users_table := fu1 (users_table c),
                            messages_table := fm1 (messages_table c),
                            calls := calls c @ cs1\<rparr>, new := n\<rparr>)"
      by blast
    show ?thesis
    proof (cases r1)
      case (Inl e)
      with d Inr u show ?thesis
        by (intro exI [of _ "Inl e"] exI [of _ fu1] exI [of _ fm1] exI [of _ cs1]) simp
    next
      case r1: (Inr x)
      from Cons.IH obtain r2 fu2 fm2 cs2 where l: "\<And>c n.
          commit_loop ds (s\<lparr>conn := c, new := n\<rparr>) =
            (r2, s\<lparr>conn := c\<lparr>users_table := fu2 (users_table c),
                              messages_table := fm2 (messages_table c),
                              calls := calls c @ cs2\<rparr>, new := n\<rparr>)"
        by blast
      have "commit_loop (d # ds) (s\<lparr>conn := c, new := n\<rparr>) =
              (r2, s\<lparr>conn := c\<lparr>users_table := (fu2 \<circ> fu1) (users_table c),
                                messages_table := (fm2 \<circ> fm1) (messages_table c),
                                calls := calls c @ (cs1 @ cs2)\<rparr>, new := n\<rparr>)" for c n
        using l [where c = "c\<lparr>users_table := fu1 (users_table c),
                             messages_table := fm1 (messages_table c),
                             calls := calls c @ cs1\<rparr>" and n = n]
        by (simp add: d Inr u r1)
      then show ?thesis by blast
    qed
  qed
qed

lemma commit_frame:
  "\<exists>r fu fm cs. \<forall>c n.
     commit (s\<lparr>conn := c, new := n\<rparr>) =
       (r, s\<lparr>conn := c\<lparr>users_table := fu (users_table c),
                        messages_table := fm (messages_table c),
                        calls := calls c @ cs\<rparr>, new := n\<rparr>)"
proof -
  from commit_loop_frame [of "dirty s" s]
  obtain r fu fm cs where l: "\<And>c n.
      commit_loop (dirty s) (s\<lparr>conn := c, new := n\<rparr>) =
        (r, s\<lparr>conn := c\<lparr>users_table := fu (users_table c),
                         messages_table := fm (messages_table c),
                         calls := calls c @ cs\<rparr>, new := n\<rparr>)"
    by blast
  show ?thesis
  proof (cases r)
    case (Inl e)
    with l show ?thesis
      by (intro exI [of _ "Inl e"] exI [of _ fu] exI [of _ fm] exI [of _ cs])
         (simp add: commit_def)
  next
    case (Inr x)
    with l show ?thesis
      by (intro exI [of _ "Inr ()"] exI [of _ fu] exI [of _ fm]
                exI [of _ "cs @ [TransactionCommit]"])
         (simp add: commit_def connection_commit_def)
  qed
qed

text \<open>
  C5. \<open>commit\<close> does not read the \<open>new\<close> map: whatever the map holds, the outcome and
  the final state are the same, with the map carried over. \<open>commit\<close> leaves \<open>new\<close>
  and \<open>dirty\<close> as they were, so a second \<open>commit\<close> has the same outcome and makes the
  calls of the first one on the connection once more.
\<close>

theorem commit_ignores_new_and_keeps_dirty:
  "commit (s\<lparr>new := n\<rparr>) = (fst (commit s), (snd (commit s))\<lparr>new := n\<rparr>) \<and>
   new (snd (commit s)) = new s \<and>
   dirty (snd (commit s)) = dirty s \<and>
   fst (commit (snd (commit s))) = fst (commit s) \<and>
   calls (conn (snd (commit (snd (commit s))))) =
     calls (conn (snd (commit s))) @
       drop (length (calls (conn s))) (calls (conn (snd (commit s))))"
proof -
  from commit_frame [of s]
  obtain r fu fm cs where f: "\<And>c n.
      commit (s\<lparr>conn := c, new := n\<rparr>) =
        (r, s\<lparr>conn := c\<lparr>users_table := fu (users_table c),
                         messages_table := fm (messages_table c),
                         calls := calls c @ cs\<rparr>, new := n\<rparr>)"
    by blast
  let ?c1 = "(conn s)\<lparr>users_table := fu (users_table (conn s)),
                      messages_table := fm (messages_table (conn s)),
                      calls := calls (conn s) @ cs\<rparr>"
  have one: "commit s = (r, s\<lparr>conn := ?c1\<rparr>)"
    using f [where c = "conn s" and n = "new s"] by simp
  have other: "commit (s\<lparr>new := n\<rparr>) = (r, s\<lparr>conn := ?c1, new := n\<rparr>)"
    using f [where c = "conn s" and n = n] by simp
  have two: "commit (s\<lparr>conn := ?c1\<rparr>) =
               (r, s\<lparr>conn := ?c1\<lparr>users_table := fu (users_table ?c1),
                                  messages_table := fm (messages_table ?c1),
                                  calls := calls ?c1 @ cs\<rparr>\<rparr>)"
    using f [where c = ?c1 and n = "new s"] by simp
  show ?thesis
    by (simp add: one other two)
qed











section \<open>The demonstration\<close>

text \<open>
  C4. On the store the script seeds, the use case followed by the three direct queries
  prints the edited bodies of messages 1 and 2 and the new name of user 1.
\<close>

theorem driver_prints_committed_values:
  "fst (driver (initial seeded)) =
     Inr (''new message body 1'', ''new message body 2'', ''new username'')"
  by code_simp

end
